theory Spec2Isabelle
  imports Main "HOL-Library.Word" "HOL-Library.Stream"
begin

section \<open>The i8042 PS/2 driver: data\<close>

text \<open>
  The driver (\<^verbatim>\<open>i8042_driver.c\<close>) talks to the controller through two byte registers.
  Bytes are \<^verbatim>\<open>uint8_t\<close>, modelled as 8-bit words.
\<close>

type_synonym byte = "8 word"

text \<open>
  Key identities are the \<^verbatim>\<open>KEY_*\<close> macros of the kernel's input header, which is not part
  of the repository. A key is modelled by the name of its macro.
\<close>

type_synonym key = string

text \<open>Interrupt lines and device classes (\<^verbatim>\<open>#define\<close>s at lines 32-33 and 73-75).\<close>

abbreviation I8042_IRQ1 :: int where "I8042_IRQ1 \<equiv> 1"
abbreviation I8042_IRQ12 :: int where "I8042_IRQ12 \<equiv> 12"

abbreviation UNDEFINED :: int where "UNDEFINED \<equiv> 0"
abbreviation KEYBOARD :: int where "KEYBOARD \<equiv> 1"
abbreviation MOUSE :: int where "MOUSE \<equiv> 2"

subsection \<open>Scancode tables (lines 80-108)\<close>

definition press_scancodes :: "byte list" where
  "press_scancodes =
   [      0x01, 0x02, 0x03, 0x04, 0x05, 0x06, 0x07, 0x08, 0x09, 0x0A, 0x0B, 0x0C, 0x0D, 0x0E, 0x0F,
    0x10, 0x11, 0x12, 0x13, 0x14, 0x15, 0x16, 0x17, 0x18, 0x19, 0x1A, 0x1B, 0x1C, 0x1D, 0x1E, 0x1F,
    0x20, 0x21, 0x22, 0x23, 0x24, 0x25, 0x26, 0x27, 0x28, 0x29, 0x2A, 0x2B, 0x2C, 0x2D, 0x2E, 0x2F,
    0x30, 0x31, 0x32, 0x33, 0x34, 0x35, 0x36, 0x37, 0x38, 0x39, 0x3A, 0x3B, 0x3C, 0x3D, 0x3E, 0x3F,
    0x40, 0x41, 0x42, 0x43, 0x44, 0x45, 0x46, 0x47, 0x48, 0x49, 0x4A, 0x4B, 0x4C, 0x4D, 0x4E, 0x4F,
    0x50, 0x51, 0x52, 0x53,                   0x57, 0x58]"

definition release_scancodes :: "byte list" where
  "release_scancodes =
   [      0x81, 0x82, 0x83, 0x84, 0x85, 0x86, 0x87, 0x88, 0x89, 0x8A, 0x8B, 0x8C, 0x8D, 0x8E, 0x8F,
    0x90, 0x91, 0x92, 0x93, 0x94, 0x95, 0x96, 0x97, 0x98, 0x99, 0x9A, 0x9B, 0x9C, 0x9D, 0x9E, 0x9F,
    0xA0, 0xA1, 0xA2, 0xA3, 0xA4, 0xA5, 0xA6, 0xA7, 0xA8, 0xA9, 0xAA, 0xAB, 0xAC, 0xAD, 0xAE, 0xAF,
    0xB0, 0xB1, 0xB2, 0xB3, 0xB4, 0xB5, 0xB6, 0xB7, 0xB8, 0xB9, 0xBA, 0xBB, 0xBC, 0xBD, 0xBE, 0xBF,
    0xC0, 0xC1, 0xC2, 0xC3, 0xC4, 0xC5, 0xC6, 0xC7, 0xC8, 0xC9, 0xCA, 0xCB, 0xCC, 0xCD, 0xCE, 0xCF,
    0xD0, 0xD1, 0xD2, 0xD3,                   0xD7, 0xD8]"

definition keys :: "key list" where
  "keys =
   [''KEY_ESC'', ''KEY_1'', ''KEY_2'', ''KEY_3'', ''KEY_4'', ''KEY_5'', ''KEY_6'', ''KEY_7'',
    ''KEY_8'', ''KEY_9'', ''KEY_0'', ''KEY_MINUS'', ''KEY_EQUAL'', ''KEY_BACKSPACE'', ''KEY_TAB'',
    ''KEY_Q'', ''KEY_W'', ''KEY_E'', ''KEY_R'', ''KEY_T'', ''KEY_Y'', ''KEY_U'', ''KEY_I'',
    ''KEY_O'', ''KEY_P'', ''KEY_LEFTBRACE'', ''KEY_RIGHTBRACE'', ''KEY_ENTER'', ''KEY_LEFTCTRL'',
    ''KEY_A'', ''KEY_S'',
    ''KEY_D'', ''KEY_F'', ''KEY_G'', ''KEY_H'', ''KEY_J'', ''KEY_K'', ''KEY_L'', ''KEY_SEMICOLON'',
    ''KEY_APOSTROPHE'', ''KEY_GRAVE'', ''KEY_LEFTSHIFT'', ''KEY_BACKSLASH'', ''KEY_Z'', ''KEY_X'',
    ''KEY_C'', ''KEY_V'',
    ''KEY_B'', ''KEY_N'', ''KEY_M'', ''KEY_COMMA'', ''KEY_DOT'', ''KEY_SLASH'', ''KEY_RIGHTSHIFT'',
    ''KEY_KPASTERISK'', ''KEY_LEFTALT'', ''KEY_SPACE'', ''KEY_CAPSLOCK'', ''KEY_F1'', ''KEY_F2'',
    ''KEY_F3'', ''KEY_F4'', ''KEY_F5'',
    ''KEY_F6'', ''KEY_F7'', ''KEY_F8'', ''KEY_F9'', ''KEY_F10'', ''KEY_NUMLOCK'',
    ''KEY_SCROLLLOCK'', ''KEY_KP7'', ''KEY_KP8'', ''KEY_KP9'', ''KEY_KPMINUS'', ''KEY_KP4'',
    ''KEY_KP5'', ''KEY_KP6'', ''KEY_KPPLUS'', ''KEY_KP1'',
    ''KEY_KP2'', ''KEY_KP3'', ''KEY_KP0'', ''KEY_KPDOT'', ''KEY_F11'', ''KEY_F12'']"

definition esc_press_scancodes :: "byte list" where
  "esc_press_scancodes =
   [0x1C, 0x1D, 0x2A, 0x36, 0x38, 0x47, 0x48, 0x49, 0x4B, 0x4D, 0x4F, 0x50, 0x51, 0x52, 0x53]"

definition esc_release_scancodes :: "byte list" where
  "esc_release_scancodes =
   [0x9C, 0x9D, 0xAA, 0xB6, 0xB8, 0xC7, 0xC8, 0xC9, 0xCB, 0xCD, 0xCF, 0xD0, 0xD1, 0xD2, 0xD3]"

definition esc_keys :: "key list" where
  "esc_keys =
   [''KEY_KPENTER'', ''KEY_RIGHTCTRL'', ''KEY_LEFTSHIFT'', ''KEY_RIGHTSHIFT'', ''KEY_RIGHTALT'',
    ''KEY_HOME'', ''KEY_UP'', ''KEY_PAGEUP'', ''KEY_LEFT'', ''KEY_RIGHT'', ''KEY_END'',
    ''KEY_DOWN'', ''KEY_PAGEDOWN'', ''KEY_INSERT'', ''KEY_DELETE'']"

section \<open>The interrupt handler (lines 110-148)\<close>

text \<open>
  What the handler does to the input device it was registered with: \<^verbatim>\<open>input_report_key\<close>
  with a key and a value (1 pressed, 0 released), and \<^verbatim>\<open>input_sync\<close>. The device is the
  handler's \<^verbatim>\<open>dev_data\<close> argument, here the number of the device (1 for \<^verbatim>\<open>dev1\<close>,
  2 for \<^verbatim>\<open>dev2\<close>).
\<close>

datatype sink_call = ReportKey nat key int | InputSync nat

datatype irqreturn = IRQ_HANDLED

text \<open>
  The two \<^verbatim>\<open>for\<close> loops of the handler have the same body over different tables and
  bounds (85 and 15): from index \<open>i\<close>, the first index whose press code or release code is
  the scancode reports the key of that index and leaves the loop; at the bound nothing has
  been reported.
\<close>

function scan_tables ::
  "nat \<Rightarrow> byte list \<Rightarrow> byte list \<Rightarrow> key list \<Rightarrow> nat \<Rightarrow> byte \<Rightarrow> nat \<Rightarrow> sink_call list" where
  "scan_tables n press release ks dev scancode i =
     (if i < n then
        (if scancode = press ! i then [ReportKey dev (ks ! i) 1]
         else if scancode = release ! i then [ReportKey dev (ks ! i) 0]
         else scan_tables n press release ks dev scancode (i + 1))
      else [])"
  by pat_completeness auto
termination
  by (relation "measure (\<lambda>(n, press, release, ks, dev, scancode, i). n - i)") auto

declare scan_tables.simps [simp del]

text \<open>
  \<^verbatim>\<open>inb(I8042_DATA_REG)\<close> takes the next byte the data register delivers; the register is
  the stream of the bytes that successive reads return. The handler returns its result,
  the calls it made on the device, and the data register after its reads. It keeps no
  variable from one invocation to the next: after the byte 0xE0 it reads the data register
  a second time in the same invocation.
\<close>

definition i8042_handler :: "int \<Rightarrow> nat \<Rightarrow> byte stream \<Rightarrow> irqreturn \<times> sink_call list \<times> byte stream" where
  "i8042_handler irq dev data_reg =
     (let scancode = shd data_reg; data_reg = stl data_reg in
      if irq = I8042_IRQ1 then
        (if scancode \<noteq> 0xE0 then
           (IRQ_HANDLED,
            scan_tables 85 press_scancodes release_scancodes keys dev scancode 0 @ [InputSync dev],
            data_reg)
         else
           (let scancode = shd data_reg; data_reg = stl data_reg in
            (IRQ_HANDLED,
             scan_tables 15 esc_press_scancodes esc_release_scancodes esc_keys dev scancode 0
               @ [InputSync dev],
             data_reg)))
      else if irq = I8042_IRQ12 then (IRQ_HANDLED, [InputSync dev], data_reg)
      else (IRQ_HANDLED, [InputSync dev], data_reg))"

text \<open>The key events among the calls of one invocation.\<close>

fun key_events :: "sink_call list \<Rightarrow> (key \<times> int) list" where
  "key_events [] = []"
| "key_events (ReportKey d k v # cs) = (k, v) # key_events cs"
| "key_events (InputSync d # cs) = key_events cs"

section \<open>Bring-up: the registers and the kernel services\<close>

text \<open>
  Controller commands and device commands (\<^verbatim>\<open>#define\<close>s at lines 41-62), and the error
  numbers the driver returns. The error numbers come from the kernel's errno header, which
  is not part of the repository; the values are those of Linux.
\<close>

abbreviation I8042_READ_CONFIG_BYTE :: byte where "I8042_READ_CONFIG_BYTE \<equiv> 0x20"
abbreviation I8042_WRITE_CONFIG_BYTE :: byte where "I8042_WRITE_CONFIG_BYTE \<equiv> 0x60"
abbreviation I8042_WRITE_SECOND_PS2_INPUT_BUFFER :: byte where
  "I8042_WRITE_SECOND_PS2_INPUT_BUFFER \<equiv> 0xD4"
abbreviation I8042_DISABLE_FIRST_PS2_PORT :: byte where "I8042_DISABLE_FIRST_PS2_PORT \<equiv> 0xAD"
abbreviation I8042_DISABLE_SECOND_PS2_PORT :: byte where "I8042_DISABLE_SECOND_PS2_PORT \<equiv> 0xA7"
abbreviation I8042_ENABLE_FIRST_PS2_PORT :: byte where "I8042_ENABLE_FIRST_PS2_PORT \<equiv> 0xAE"
abbreviation I8042_ENABLE_SECOND_PS2_PORT :: byte where "I8042_ENABLE_SECOND_PS2_PORT \<equiv> 0xA8"
abbreviation I8042_SELF_TEST :: byte where "I8042_SELF_TEST \<equiv> 0xAA"
abbreviation I8042_FIRST_PORT_INTERFACE_TEST :: byte where
  "I8042_FIRST_PORT_INTERFACE_TEST \<equiv> 0xAB"
abbreviation I8042_SECOND_PORT_INTERFACE_TEST :: byte where
  "I8042_SECOND_PORT_INTERFACE_TEST \<equiv> 0xA9"
abbreviation I8042_RESET :: byte where "I8042_RESET \<equiv> 0xFF"
abbreviation I8042_DISABLE_SCANNING :: byte where "I8042_DISABLE_SCANNING \<equiv> 0xF5"
abbreviation I8042_IDENTIFY :: byte where "I8042_IDENTIFY \<equiv> 0xF2"
abbreviation I8042_KBD_ENABLE :: byte where "I8042_KBD_ENABLE \<equiv> 0xF4"

abbreviation ETIME :: int where "ETIME \<equiv> 62"
abbreviation EINVAL :: int where "EINVAL \<equiv> 22"
abbreviation ENOMEM :: int where "ENOMEM \<equiv> 12"
abbreviation EBUSY :: int where "EBUSY \<equiv> 16"

text \<open>
  What bring-up does to the outside, in the order it does it: a byte written to the command
  register or to the data register, and the kernel resources taken and given back
  (an input device allocated, registered, unregistered or freed; an interrupt line bound to
  the handler with a device, or released). Devices are numbered 1 (\<^verbatim>\<open>dev1\<close>) and
  2 (\<^verbatim>\<open>dev2\<close>).
\<close>

datatype action =
    OutCmd byte
  | OutData byte
  | InputAllocate nat
  | InputRegister nat
  | RequestIrq int nat
  | FreeIrq int nat
  | InputUnregister nat
  | InputFree nat

text \<open>
  The state of the driver and of the hardware it polls. \<open>first_port\<close> and
  \<open>second_port\<close> are the driver's globals. The three polling functions of the source
  (\<^verbatim>\<open>read_reg\<close>, \<^verbatim>\<open>write_dev1\<close>, \<^verbatim>\<open>write_dev2\<close>) spin on the status register until a
  deadline in jiffies; whether the status bit shows up before the deadline is the
  hardware's choice, so the hardware is a script: \<open>rd\<close> holds the outcomes of the coming
  calls of \<^verbatim>\<open>read_reg\<close> (\<open>Some b\<close>: the byte \<open>b\<close> arrived; \<open>None\<close>: the deadline
  passed, the call returns -1), \<open>wr\<close> those of the coming calls of \<^verbatim>\<open>write_dev1\<close> and
  \<^verbatim>\<open>write_dev2\<close> (\<open>True\<close>: the input buffer became free and the byte was written).
  A script that has run out answers no more: the call times out.
\<close>

record driver =
  first_port :: int
  second_port :: int
  rd :: "byte option list"
  wr :: "bool list"
  trace :: "action list"

text \<open>The globals are zero when the module is loaded (line 77).\<close>

definition module_load :: "byte option list \<Rightarrow> bool list \<Rightarrow> driver" where
  "module_load reads writes =
     \<lparr>first_port = 0, second_port = 0, rd = reads, wr = writes, trace = []\<rparr>"

text \<open>
  The kernel services whose result the driver tests: whether \<^verbatim>\<open>input_allocate_device\<close>
  returns a device, and the return values of \<^verbatim>\<open>input_register_device\<close> (per device) and
  of \<^verbatim>\<open>request_irq\<close> (per interrupt line); 0 is success.
\<close>

record kernel =
  allocate_ok :: "nat \<Rightarrow> bool"
  register_ret :: "nat \<Rightarrow> int"
  request_irq_ret :: "int \<Rightarrow> int"

definition outb_cmd :: "byte \<Rightarrow> driver \<Rightarrow> driver" where
  "outb_cmd b s = s\<lparr>trace := trace s @ [OutCmd b]\<rparr>"

definition outb_data :: "byte \<Rightarrow> driver \<Rightarrow> driver" where
  "outb_data b s = s\<lparr>trace := trace s @ [OutData b]\<rparr>"

definition did :: "action \<Rightarrow> driver \<Rightarrow> driver" where
  "did a s = s\<lparr>trace := trace s @ [a]\<rparr>"

text \<open>\<^verbatim>\<open>read_reg\<close> (lines 151-165).\<close>

definition read_reg :: "driver \<Rightarrow> byte option \<times> driver" where
  "read_reg s = (case rd s of [] \<Rightarrow> (None, s) | r # rs \<Rightarrow> (r, s\<lparr>rd := rs\<rparr>))"

text \<open>\<^verbatim>\<open>write_dev1\<close> (lines 168-182): the byte is written only when the buffer became free.\<close>

definition write_dev1 :: "byte \<Rightarrow> driver \<Rightarrow> bool \<times> driver" where
  "write_dev1 b s =
     (case wr s of
        [] \<Rightarrow> (False, s)
      | ok # ws \<Rightarrow>
          if ok then (True, outb_data b (s\<lparr>wr := ws\<rparr>)) else (False, s\<lparr>wr := ws\<rparr>))"

text \<open>\<^verbatim>\<open>write_dev2\<close> (lines 185-200): the command 0xD4 goes out first, in any case.\<close>

definition write_dev2 :: "byte \<Rightarrow> driver \<Rightarrow> bool \<times> driver" where
  "write_dev2 b s = write_dev1 b (outb_cmd I8042_WRITE_SECOND_PS2_INPUT_BUFFER s)"

section \<open>Bring-up: \<^verbatim>\<open>init_module\<close> (lines 202-573)\<close>

text \<open>
  \<^verbatim>\<open>init_module\<close> is one long function; the model cuts it at its own comments. A part
  that can leave the function returns \<open>Inl (code, state)\<close> for the \<^verbatim>\<open>return\<close> and
  \<open>Inr\<close> to go on. \<^verbatim>\<open>printk\<close> is not modelled.
\<close>

text \<open>"This code disables PS/2 ports" (lines 207-209).\<close>

definition disable_ports :: "driver \<Rightarrow> driver" where
  "disable_ports s =
     outb_cmd I8042_DISABLE_SECOND_PS2_PORT (outb_cmd I8042_DISABLE_FIRST_PS2_PORT s)"

text \<open>"This code flushes output buffer" (lines 211-216).\<close>

definition flush_output_buffer :: "driver \<Rightarrow> (int \<times> driver) + driver" where
  "flush_output_buffer s =
     (let s = outb_cmd I8042_READ_CONFIG_BYTE s in
      case read_reg s of
        (None, s) \<Rightarrow> Inl (- ETIME, s)
      | (Some byte, s) \<Rightarrow> Inr s)"

text \<open>
  "This code sets config byte" (lines 218-233). The result carries \<^verbatim>\<open>dual_channel_test\<close>.
  Between the write of the cleared byte and the test of bit 5 the source calls
  \<^verbatim>\<open>read_reg(&byte, 250)\<close> again (line 228), which stores a new value in \<^verbatim>\<open>byte\<close>.
\<close>

definition set_config_byte :: "driver \<Rightarrow> (int \<times> driver) + (byte \<times> driver)" where
  "set_config_byte s =
     (let s = outb_cmd I8042_READ_CONFIG_BYTE s in
      case read_reg s of
        (None, s) \<Rightarrow> Inl (- ETIME, s)
      | (Some byte, s) \<Rightarrow>
          (let byte = unset_bit 0 byte;
               byte = unset_bit 1 byte;
               byte = unset_bit 6 byte;
               s = outb_data byte s in
           case read_reg s of
             (None, s) \<Rightarrow> Inl (- ETIME, s)
           | (Some byte, s) \<Rightarrow>
               (let s = outb_cmd I8042_WRITE_CONFIG_BYTE s;
                    dual_channel_test = (if bit byte 5 then 1 else 0) in
                Inr (dual_channel_test, s))))"

text \<open>"This code performs i8042 self check" (lines 235-246).\<close>

definition self_check :: "driver \<Rightarrow> (int \<times> driver) + driver" where
  "self_check s =
     (let s = outb_cmd I8042_SELF_TEST s in
      case read_reg s of
        (None, s) \<Rightarrow> Inl (- ETIME, s)
      | (Some byte, s) \<Rightarrow> if byte = 0x55 then Inr s else Inl (- EINVAL, s))"

text \<open>"This code determines if there are 2 channels" (lines 248-264).\<close>

definition detect_dual_channel :: "byte \<Rightarrow> driver \<Rightarrow> (int \<times> driver) + (byte \<times> driver)" where
  "detect_dual_channel dual_channel_test s =
     (if dual_channel_test \<noteq> 0 then
        (let s = outb_cmd I8042_ENABLE_SECOND_PS2_PORT s;
             s = outb_cmd I8042_READ_CONFIG_BYTE s in
         case read_reg s of
           (None, s) \<Rightarrow> Inl (- ETIME, s)
         | (Some byte, s) \<Rightarrow>
             (let dual_channel_test = (if bit byte 5 then 0 else 1);
                  s = outb_cmd I8042_DISABLE_SECOND_PS2_PORT s in
              Inr (dual_channel_test, s)))
      else Inr (dual_channel_test, s))"

text \<open>"This code performs interface check" (lines 266-293).\<close>

definition interface_check :: "byte \<Rightarrow> driver \<Rightarrow> (int \<times> driver) + driver" where
  "interface_check dual_channel_test s =
     (let s = outb_cmd I8042_FIRST_PORT_INTERFACE_TEST s in
      case read_reg s of
        (None, s) \<Rightarrow> Inl (- ETIME, s)
      | (Some byte, s) \<Rightarrow>
          (let s = (if byte = 0x00 then s\<lparr>first_port := 1\<rparr> else s) in
           case (if dual_channel_test \<noteq> 0 then
                   (let s = outb_cmd I8042_SECOND_PORT_INTERFACE_TEST s in
                    case read_reg s of
                      (None, s) \<Rightarrow> Inl (- ETIME, s)
                    | (Some byte, s) \<Rightarrow>
                        Inr (if byte = 0x00 then s\<lparr>second_port := 1\<rparr> else s))
                 else Inr s) of
             Inl r \<Rightarrow> Inl r
           | Inr s \<Rightarrow>
               if first_port s = 0 \<and> second_port s = 0 then Inl (- EINVAL, s) else Inr s))"

text \<open>"This code enables ports" (lines 295-311).\<close>

definition enable_ports :: "driver \<Rightarrow> (int \<times> driver) + driver" where
  "enable_ports s =
     (let s = outb_cmd I8042_READ_CONFIG_BYTE s in
      case read_reg s of
        (None, s) \<Rightarrow> Inl (- ETIME, s)
      | (Some byte, s) \<Rightarrow>
          (let (byte, s) =
                 (if first_port s \<noteq> 0
                  then (set_bit 0 byte, outb_cmd I8042_ENABLE_FIRST_PS2_PORT s) else (byte, s));
               (byte, s) =
                 (if second_port s \<noteq> 0
                  then (set_bit 1 byte, outb_cmd I8042_ENABLE_SECOND_PS2_PORT s) else (byte, s));
               byte = set_bit 6 byte;
               s = outb_data byte s;
               s = outb_cmd I8042_WRITE_CONFIG_BYTE s in
           Inr s))"

text \<open>"This code resets devices" (lines 313-329): no test of \<^verbatim>\<open>first_port\<close> or
  \<^verbatim>\<open>second_port\<close> in this part.\<close>

definition reset_devices :: "driver \<Rightarrow> (int \<times> driver) + driver" where
  "reset_devices s =
     (case write_dev1 I8042_RESET s of
        (False, s) \<Rightarrow> Inl (- ETIME, s)
      | (True, s) \<Rightarrow>
          (case read_reg s of
             (None, s) \<Rightarrow> Inl (- ETIME, s)
           | (Some byte, s) \<Rightarrow>
               (case write_dev2 I8042_RESET s of
                  (False, s) \<Rightarrow> Inl (- ETIME, s)
                | (True, s) \<Rightarrow>
                    (case read_reg s of
                       (None, s) \<Rightarrow> Inl (- ETIME, s)
                     | (Some byte, s) \<Rightarrow> Inr s))))"

text \<open>
  "Detecting device on first port" (lines 331-395). Every \<^verbatim>\<open>goto first_port_fail\<close>
  follows \<^verbatim>\<open>first_port = UNDEFINED\<close> and lands right after this part, so the part always
  hands a state on.
\<close>

definition detect_first_port :: "driver \<Rightarrow> driver" where
  "detect_first_port s =
     (if first_port s \<noteq> 0 then
        (case write_dev1 I8042_DISABLE_SCANNING s of
           (False, s) \<Rightarrow> s\<lparr>first_port := UNDEFINED\<rparr>
         | (True, s) \<Rightarrow>
        (case read_reg s of
           (None, s) \<Rightarrow> s\<lparr>first_port := UNDEFINED\<rparr>
         | (Some byte, s) \<Rightarrow>
        (case write_dev1 I8042_IDENTIFY s of
           (False, s) \<Rightarrow> s\<lparr>first_port := UNDEFINED\<rparr>
         | (True, s) \<Rightarrow>
        (case read_reg s of
           (None, s) \<Rightarrow> s\<lparr>first_port := UNDEFINED\<rparr>
         | (Some byte, s) \<Rightarrow>
             if byte = 0xFA then
               (case read_reg s of
                  (None, s) \<Rightarrow> s\<lparr>first_port := UNDEFINED\<rparr>
                | (Some byte, s) \<Rightarrow>
                    if byte = 0x00 then s\<lparr>first_port := MOUSE\<rparr>
                    else if byte = 0x03 then s\<lparr>first_port := MOUSE\<rparr>
                    else if byte = 0x04 then s\<lparr>first_port := MOUSE\<rparr>
                    else if byte = 0xAB then
                      (case read_reg s of
                         (None, s) \<Rightarrow> s\<lparr>first_port := UNDEFINED\<rparr>
                       | (Some byte2, s) \<Rightarrow>
                           if byte = 0xAB \<and> (byte2 = 0x41 \<or> byte2 = 0xC1)
                           then s\<lparr>first_port := KEYBOARD\<rparr>
                           else if byte = 0xAB \<and> byte2 = 0x83
                           then s\<lparr>first_port := KEYBOARD\<rparr>
                           else s\<lparr>first_port := UNDEFINED\<rparr>)
                    else s\<lparr>first_port := UNDEFINED\<rparr>)
             else s\<lparr>first_port := UNDEFINED\<rparr>))))
      else s)"

text \<open>"Detecting device on second port" (lines 397-457).\<close>

definition detect_second_port :: "driver \<Rightarrow> driver" where
  "detect_second_port s =
     (if second_port s \<noteq> 0 then
        (case write_dev2 I8042_DISABLE_SCANNING s of
           (False, s) \<Rightarrow> s\<lparr>second_port := UNDEFINED\<rparr>
         | (True, s) \<Rightarrow>
        (case read_reg s of
           (None, s) \<Rightarrow> s\<lparr>second_port := UNDEFINED\<rparr>
         | (Some byte, s) \<Rightarrow>
        (case write_dev2 I8042_IDENTIFY s of
           (False, s) \<Rightarrow> s\<lparr>second_port := UNDEFINED\<rparr>
         | (True, s) \<Rightarrow>
        (case read_reg s of
           (None, s) \<Rightarrow> s\<lparr>second_port := UNDEFINED\<rparr>
         | (Some byte, s) \<Rightarrow>
             if byte = 0xFA then
               (case read_reg s of
                  (None, s) \<Rightarrow> s\<lparr>second_port := UNDEFINED\<rparr>
                | (Some byte, s) \<Rightarrow>
                    if byte = 0x00 then s\<lparr>second_port := MOUSE\<rparr>
                    else if byte = 0x03 then s\<lparr>second_port := MOUSE\<rparr>
                    else if byte = 0x04 then s\<lparr>second_port := MOUSE\<rparr>
                    else if byte = 0xAB then
                      (case read_reg s of
                         (None, s) \<Rightarrow> s\<lparr>second_port := UNDEFINED\<rparr>
                       | (Some byte2, s) \<Rightarrow>
                           if byte2 = 0x41 \<or> byte2 = 0xC1
                           then s\<lparr>second_port := KEYBOARD\<rparr>
                           else s\<lparr>second_port := UNDEFINED\<rparr>)
                    else s\<lparr>second_port := UNDEFINED\<rparr>)
             else s\<lparr>second_port := UNDEFINED\<rparr>))))
      else s)"

text \<open>The unwinding labels (lines 544-572); each runs on into the next one of its chain.\<close>

definition err_dev1_unreg :: "driver \<Rightarrow> driver" where
  "err_dev1_unreg s = did (InputUnregister 1) s"

definition err_irq1_free :: "driver \<Rightarrow> driver" where
  "err_irq1_free s = err_dev1_unreg (did (FreeIrq I8042_IRQ1 1) s)"

definition err_first_dev2_unreg :: "driver \<Rightarrow> driver" where
  "err_first_dev2_unreg s = err_irq1_free (did (InputUnregister 2) s)"

definition err_first_irq12_free :: "driver \<Rightarrow> driver" where
  "err_first_irq12_free s = err_first_dev2_unreg (did (FreeIrq I8042_IRQ12 2) s)"

definition err_second_dev2_unreg :: "driver \<Rightarrow> driver" where
  "err_second_dev2_unreg s = did (InputUnregister 2) s"

definition err_second_irq12_free :: "driver \<Rightarrow> driver" where
  "err_second_irq12_free s = err_second_dev2_unreg (did (FreeIrq I8042_IRQ12 2) s)"

definition err_dev1_free :: "driver \<Rightarrow> driver" where
  "err_dev1_free s = did (InputFree 1) s"

definition err_first_dev2_free :: "driver \<Rightarrow> driver" where
  "err_first_dev2_free s =
     did (InputUnregister 1) (did (FreeIrq I8042_IRQ1 1) (did (InputFree 2) s))"

definition err_second_dev2_free :: "driver \<Rightarrow> driver" where
  "err_second_dev2_free s = did (InputFree 2) s"

text \<open>
  The first device (lines 459-490): allocated, registered, its interrupt line bound to the
  handler, scanning enabled. Filling in the name and the event bits of the device
  (lines 466-468) has no outcome the driver looks at and is left out.
\<close>

definition register_first :: "kernel \<Rightarrow> driver \<Rightarrow> (int \<times> driver) + driver" where
  "register_first k s =
     (if first_port s \<noteq> 0 then
        (if \<not> allocate_ok k 1 then Inl (- ENOMEM, s)
         else
           (let s = did (InputAllocate 1) s; error = register_ret k 1 in
            if error \<noteq> 0 then Inl (error, err_dev1_free s)
            else
              (let s = did (InputRegister 1) s in
               if request_irq_ret k I8042_IRQ1 \<noteq> 0 then Inl (- EBUSY, err_dev1_unreg s)
               else
                 (let s = did (RequestIrq I8042_IRQ1 1) s in
                  case write_dev1 I8042_KBD_ENABLE s of
                    (False, s) \<Rightarrow> Inl (- ETIME, err_irq1_free s)
                  | (True, s) \<Rightarrow>
                      (case read_reg s of
                         (None, s) \<Rightarrow> Inl (- ETIME, err_irq1_free s)
                       | (Some byte, s) \<Rightarrow> Inr s)))))
      else Inr s)"

text \<open>The second device (lines 492-542); the label taken depends on \<^verbatim>\<open>first_port\<close>.\<close>

definition register_second :: "kernel \<Rightarrow> driver \<Rightarrow> int \<times> driver" where
  "register_second k s =
     (if second_port s \<noteq> 0 then
        (if \<not> allocate_ok k 2 then
           (if first_port s \<noteq> 0 then (- ENOMEM, err_irq1_free s) else (- ENOMEM, s))
         else
           (let s = did (InputAllocate 2) s; error = register_ret k 2 in
            if error \<noteq> 0 then
              (if first_port s \<noteq> 0 then (error, err_first_dev2_free s)
               else (error, err_second_dev2_free s))
            else
              (let s = did (InputRegister 2) s in
               if request_irq_ret k I8042_IRQ12 \<noteq> 0 then
                 (if first_port s \<noteq> 0 then (- EBUSY, err_first_dev2_unreg s)
                  else (- EBUSY, err_second_dev2_unreg s))
               else
                 (let s = did (RequestIrq I8042_IRQ12 2) s in
                  case write_dev2 I8042_KBD_ENABLE s of
                    (False, s) \<Rightarrow>
                      (if first_port s \<noteq> 0 then (- ETIME, err_first_irq12_free s)
                       else (- ETIME, err_second_irq12_free s))
                  | (True, s) \<Rightarrow>
                      (case read_reg s of
                         (None, s) \<Rightarrow>
                           (if first_port s \<noteq> 0 then (- ETIME, err_first_irq12_free s)
                            else (- ETIME, err_second_irq12_free s))
                       | (Some byte, s) \<Rightarrow> (0, s))))))
      else (0, s))"

definition register_devices :: "kernel \<Rightarrow> driver \<Rightarrow> int \<times> driver" where
  "register_devices k s =
     (case register_first k s of Inl r \<Rightarrow> r | Inr s \<Rightarrow> register_second k s)"

text \<open>
  The function as a whole, in three stretches: up to the answer whether the controller has
  two channels (lines 207-264), up to the reset of the devices (lines 266-329), and the
  detection and registration of the devices (lines 331-573).
\<close>

definition controller_probe :: "driver \<Rightarrow> (int \<times> driver) + (byte \<times> driver)" where
  "controller_probe s =
     (case flush_output_buffer (disable_ports s) of
        Inl r \<Rightarrow> Inl r
      | Inr s \<Rightarrow>
          (case set_config_byte s of
             Inl r \<Rightarrow> Inl r
           | Inr (dual_channel_test, s) \<Rightarrow>
               (case self_check s of
                  Inl r \<Rightarrow> Inl r
                | Inr s \<Rightarrow> detect_dual_channel dual_channel_test s)))"

definition controller_setup :: "driver \<Rightarrow> (int \<times> driver) + driver" where
  "controller_setup s =
     (case controller_probe s of
        Inl r \<Rightarrow> Inl r
      | Inr (dual_channel_test, s) \<Rightarrow>
          (case interface_check dual_channel_test s of
             Inl r \<Rightarrow> Inl r
           | Inr s \<Rightarrow>
               (case enable_ports s of
                  Inl r \<Rightarrow> Inl r
                | Inr s \<Rightarrow> reset_devices s)))"

definition init_module :: "kernel \<Rightarrow> driver \<Rightarrow> int \<times> driver" where
  "init_module k s =
     (case controller_setup s of
        Inl r \<Rightarrow> r
      | Inr s \<Rightarrow> register_devices k (detect_second_port (detect_first_port s)))"

subsection \<open>Resources held\<close>

text \<open>
  The resources a sequence of actions leaves held, newest first, when every release gives
  back the newest resource still held; \<open>None\<close> when some release is out of that order.
  \<^verbatim>\<open>input_unregister_device\<close> gives back the registration and, with it, the device
  itself; \<^verbatim>\<open>input_free_device\<close> is for a device that is not registered.
\<close>

datatype resource = Allocated nat | Registered nat | Bound int nat

fun after_action :: "action \<Rightarrow> resource list \<Rightarrow> resource list option" where
  "after_action (InputAllocate n) held = Some (Allocated n # held)"
| "after_action (InputRegister n) held = Some (Registered n # held)"
| "after_action (RequestIrq l n) held = Some (Bound l n # held)"
| "after_action (FreeIrq l n) held =
     (case held of Bound l' n' # rest \<Rightarrow> if l' = l \<and> n' = n then Some rest else None
      | _ \<Rightarrow> None)"
| "after_action (InputUnregister n) held =
     (case held of Registered n' # Allocated n'' # rest \<Rightarrow>
        if n' = n \<and> n'' = n then Some rest else None
      | _ \<Rightarrow> None)"
| "after_action (InputFree n) held =
     (case held of Allocated n' # rest \<Rightarrow> if n' = n then Some rest else None
      | _ \<Rightarrow> None)"
| "after_action (OutCmd b) held = Some held"
| "after_action (OutData b) held = Some held"

fun held_after :: "action list \<Rightarrow> resource list \<Rightarrow> resource list option" where
  "held_after [] held = Some held"
| "held_after (a # as) held =
     (case after_action a held of None \<Rightarrow> None | Some held' \<Rightarrow> held_after as held')"

subsection \<open>The answers identification recognises\<close>

text \<open>
  The recognised set in the words of the specification (bring-up step 10), to compare the
  two detection parts with: both commands are accepted by the device, the first
  answer (to "disable scanning") is any byte, the answer to "identify" is the
  acknowledge 0xFA followed by 0x00, 0x03 or 0x04 (a mouse), or by 0xAB and then 0x41 or
  0xC1 (a keyboard), or, on the first port only, by 0xAB and then 0x83 (a keyboard).
\<close>

definition writes_accepted :: "bool list \<Rightarrow> bool" where
  "writes_accepted ws = (case ws of True # True # rest \<Rightarrow> True | _ \<Rightarrow> False)"

definition recognized :: "bool \<Rightarrow> byte option list \<Rightarrow> bool" where
  "recognized first rs =
     (case rs of
        Some a # Some ack # Some b # rest \<Rightarrow>
          ack = 0xFA \<and>
          (b = 0x00 \<or> b = 0x03 \<or> b = 0x04 \<or>
           (b = 0xAB \<and>
            (case rest of
               Some b2 # rest' \<Rightarrow> b2 = 0x41 \<or> b2 = 0xC1 \<or> (first \<and> b2 = 0x83)
             | _ \<Rightarrow> False)))
      | _ \<Rightarrow> False)"

section \<open>Properties of the scan loop and of the tables\<close>

lemma scan_tables_step:
  "i < n \<Longrightarrow> sc \<noteq> press ! i \<Longrightarrow> sc \<noteq> release ! i \<Longrightarrow>
   scan_tables n press release ks dev sc i = scan_tables n press release ks dev sc (Suc i)"
  by (subst scan_tables.simps) simp

lemma scan_tables_end:
  "\<not> i < n \<Longrightarrow> scan_tables n press release ks dev sc i = []"
  by (subst scan_tables.simps) simp

lemma scan_tables_at_press:
  "i < n \<Longrightarrow> sc = press ! i \<Longrightarrow>
   scan_tables n press release ks dev sc i = [ReportKey dev (ks ! i) 1]"
  by (subst scan_tables.simps) simp

lemma scan_tables_at_release:
  "i < n \<Longrightarrow> sc \<noteq> press ! i \<Longrightarrow> sc = release ! i \<Longrightarrow>
   scan_tables n press release ks dev sc i = [ReportKey dev (ks ! i) 0]"
  by (subst scan_tables.simps) simp

lemma scan_tables_skip:
  "\<forall>j. i0 \<le> j \<and> j < i0 + d \<longrightarrow> sc \<noteq> press ! j \<and> sc \<noteq> release ! j \<Longrightarrow> i0 + d \<le> n \<Longrightarrow>
   scan_tables n press release ks dev sc i0 = scan_tables n press release ks dev sc (i0 + d)"
proof (induction d arbitrary: i0)
  case 0
  then show ?case by simp
next
  case (Suc d)
  have a: "sc \<noteq> press ! i0 \<and> sc \<noteq> release ! i0" using Suc.prems(1) by simp
  have b: "i0 < n" using Suc.prems(2) by simp
  have c: "scan_tables n press release ks dev sc (Suc i0)
         = scan_tables n press release ks dev sc (Suc i0 + d)"
  proof (rule Suc.IH)
    show "\<forall>j. Suc i0 \<le> j \<and> j < Suc i0 + d \<longrightarrow> sc \<noteq> press ! j \<and> sc \<noteq> release ! j"
      using Suc.prems(1) by simp
    show "Suc i0 + d \<le> n" using Suc.prems(2) by simp
  qed
  show ?case using a b c by (simp add: scan_tables_step)
qed

lemma scan_tables_miss:
  assumes "\<forall>j<n. sc \<noteq> press ! j \<and> sc \<noteq> release ! j"
  shows "scan_tables n press release ks dev sc 0 = []"
proof -
  have "scan_tables n press release ks dev sc 0 = scan_tables n press release ks dev sc (0 + n)"
    by (rule scan_tables_skip) (use assms in simp_all)
  then show ?thesis by (simp add: scan_tables_end)
qed

lemma scan_tables_press:
  assumes "i < n" "\<forall>j<i. press ! i \<noteq> press ! j \<and> press ! i \<noteq> release ! j"
  shows "scan_tables n press release ks dev (press ! i) 0 = [ReportKey dev (ks ! i) 1]"
proof -
  have "scan_tables n press release ks dev (press ! i) 0
      = scan_tables n press release ks dev (press ! i) (0 + i)"
    by (rule scan_tables_skip) (use assms in simp_all)
  then show ?thesis using assms(1) by (simp add: scan_tables_at_press)
qed

lemma scan_tables_release:
  assumes "i < n" "\<forall>j<i. release ! i \<noteq> press ! j \<and> release ! i \<noteq> release ! j"
    "release ! i \<noteq> press ! i"
  shows "scan_tables n press release ks dev (release ! i) 0 = [ReportKey dev (ks ! i) 0]"
proof -
  have "scan_tables n press release ks dev (release ! i) 0
      = scan_tables n press release ks dev (release ! i) (0 + i)"
    by (rule scan_tables_skip) (use assms in simp_all)
  then show ?thesis using assms(1,3) by (simp add: scan_tables_at_release)
qed

lemma scan_tables_shape:
  "scan_tables n press release ks dev sc i0 = [] \<or>
   (\<exists>k v. scan_tables n press release ks dev sc i0 = [ReportKey dev k v])"
proof (induction "n - i0" arbitrary: i0)
  case 0
  then show ?case by (simp add: scan_tables_end)
next
  case (Suc d)
  then have lt: "i0 < n" and d: "d = n - Suc i0" by simp_all
  show ?case
  proof (cases "sc = press ! i0")
    case True
    then show ?thesis using lt by (simp add: scan_tables_at_press)
  next
    case np: False
    show ?thesis
    proof (cases "sc = release ! i0")
      case True
      then show ?thesis using lt np by (simp add: scan_tables_at_release)
    next
      case False
      then show ?thesis using lt np Suc.hyps(1)[OF d] by (simp add: scan_tables_step)
    qed
  qed
qed

lemma sorted_tables: "sorted_wrt (<) (press_scancodes @ release_scancodes)"
  unfolding press_scancodes_def release_scancodes_def
  by (simp add: sorted_wrt2 sorted_wrt1 del: sorted_wrt.simps)

lemma distinct_tables: "distinct (press_scancodes @ release_scancodes)"
  using sorted_tables strict_sorted_iff by blast

lemma sorted_esc_tables: "sorted_wrt (<) (esc_press_scancodes @ esc_release_scancodes)"
  unfolding esc_press_scancodes_def esc_release_scancodes_def
  by (simp add: sorted_wrt2 sorted_wrt1 del: sorted_wrt.simps)

lemma distinct_esc_tables: "distinct (esc_press_scancodes @ esc_release_scancodes)"
  using sorted_esc_tables strict_sorted_iff by blast

lemma length_tables:
  "length press_scancodes = 85" "length release_scancodes = 85" "length keys = 85"
  "length esc_press_scancodes = 15" "length esc_release_scancodes = 15" "length esc_keys = 15"
  by (simp_all add: press_scancodes_def release_scancodes_def keys_def
      esc_press_scancodes_def esc_release_scancodes_def esc_keys_def)

lemma no_escape_marker: "0xE0 \<notin> set press_scancodes" "0xE0 \<notin> set release_scancodes"
  by (simp_all add: press_scancodes_def release_scancodes_def)

text \<open>in a pair of index-aligned tables without repetition, an entry is found at its own index first\<close>
lemma aligned_tables_first:
  assumes d: "distinct (press @ release)" and lp: "length press = n" and lr: "length release = n"
    and i: "i < n"
  shows "\<forall>j<i. press ! i \<noteq> press ! j \<and> press ! i \<noteq> release ! j"
    and "\<forall>j<i. release ! i \<noteq> press ! j \<and> release ! i \<noteq> release ! j"
    and "release ! i \<noteq> press ! i"
proof -
  from d have dp: "distinct press" and dr: "distinct release"
    and dj: "set press \<inter> set release = {}" by simp_all
  have mem: "\<And>j. j < n \<Longrightarrow> press ! j \<in> set press \<and> release ! j \<in> set release"
    using lp lr by simp
  have cross: "\<And>j k. j < n \<Longrightarrow> k < n \<Longrightarrow> press ! j \<noteq> release ! k"
    using mem dj by (metis disjoint_iff)
  show "\<forall>j<i. press ! i \<noteq> press ! j \<and> press ! i \<noteq> release ! j"
    using dp lp i cross by (auto simp: nth_eq_iff_index_eq)
  show "\<forall>j<i. release ! i \<noteq> press ! j \<and> release ! i \<noteq> release ! j"
  proof (intro allI impI conjI)
    fix j assume j: "j < i"
    then have "j < n" using i by simp
    then show "release ! i \<noteq> press ! j" using cross[of j i] i by metis
    show "release ! i \<noteq> release ! j" using dr lr i j by (simp add: nth_eq_iff_index_eq)
  qed
  show "release ! i \<noteq> press ! i" using cross[OF i i] by simp
qed

lemma scan_tables_key_events:
  "map (\<lambda>(k, v). ReportKey dev k v) (key_events (scan_tables n press release ks dev sc i0))
     = scan_tables n press release ks dev sc i0"
  using scan_tables_shape[of n press release ks dev sc i0] by auto

lemma scan_tables_one_event:
  "length (key_events (scan_tables n press release ks dev sc i0)) \<le> Suc 0"
  using scan_tables_shape[of n press release ks dev sc i0] by auto

lemma key_events_append_sync: "key_events (cs @ [InputSync d]) = key_events cs"
  by (induction cs rule: key_events.induct) simp_all

lemma not_in_tables_miss:
  assumes "sc \<notin> set press" "sc \<notin> set release" "length press = n" "length release = n"
  shows "scan_tables n press release ks dev sc 0 = []"
proof (rule scan_tables_miss, intro allI impI)
  fix j assume "j < n"
  then have "press ! j \<in> set press" "release ! j \<in> set release" using assms(3,4) by simp_all
  then show "sc \<noteq> press ! j \<and> sc \<noteq> release ! j" using assms(1,2) by metis
qed

lemma register_second_binds:
  "second_port s \<noteq> 0 \<Longrightarrow> allocate_ok k 2 \<Longrightarrow> register_ret k 2 = 0 \<Longrightarrow>
   request_irq_ret k I8042_IRQ12 = 0 \<Longrightarrow>
   RequestIrq I8042_IRQ12 2 \<in> set (trace (snd (register_second k s)))"
  by (simp add: register_second_def write_dev2_def write_dev1_def read_reg_def did_def
      outb_cmd_def outb_data_def err_first_irq12_free_def err_second_irq12_free_def
      err_first_dev2_unreg_def err_second_dev2_unreg_def err_irq1_free_def err_dev1_unreg_def
      Let_def split: list.splits option.splits)

section \<open>Properties of the parts of bring-up\<close>

lemmas io_defs = read_reg_def write_dev1_def write_dev2_def outb_cmd_def outb_data_def did_def

lemmas err_defs = err_dev1_unreg_def err_irq1_free_def err_first_dev2_unreg_def
  err_first_irq12_free_def err_second_dev2_unreg_def err_second_irq12_free_def
  err_dev1_free_def err_first_dev2_free_def err_second_dev2_free_def

lemma detect_first_port_second: "second_port (detect_first_port s) = second_port s"
  by (simp add: detect_first_port_def io_defs split: list.splits option.splits)

lemma detect_second_port_first: "first_port (detect_second_port s) = first_port s"
  by (simp add: detect_second_port_def io_defs split: list.splits option.splits)

lemma register_first_ports:
  "register_first k s = Inr s' \<Longrightarrow> first_port s' = first_port s \<and> second_port s' = second_port s"
  "register_first k s = Inl (e, s') \<Longrightarrow> first_port s' = first_port s \<and> second_port s' = second_port s"
  by (auto simp: register_first_def io_defs err_defs Let_def
      split: list.splits option.splits if_splits)

lemma register_second_ports:
  "first_port (snd (register_second k s)) = first_port s \<and>
   second_port (snd (register_second k s)) = second_port s"
  by (simp add: register_second_def io_defs err_defs Let_def
      split: list.splits option.splits)

lemma register_devices_ports:
  "first_port (snd (register_devices k s)) = first_port s \<and>
   second_port (snd (register_devices k s)) = second_port s"
proof (cases "register_first k s")
  case (Inl r)
  then show ?thesis using register_first_ports(2)[of k s "fst r" "snd r"]
    by (simp add: register_devices_def)
next
  case (Inr s')
  then show ?thesis using register_first_ports(1)[of k s s'] register_second_ports[of k s']
    by (simp add: register_devices_def)
qed

lemma init_module_after_setup:
  "controller_setup s0 = Inr s \<Longrightarrow>
   init_module k s0 = register_devices k (detect_second_port (detect_first_port s))"
  by (simp add: init_module_def)

lemma init_module_ports:
  "controller_setup s0 = Inr s \<Longrightarrow>
   first_port (snd (init_module k s0)) = first_port (detect_first_port s) \<and>
   second_port (snd (init_module k s0)) = second_port (detect_second_port (detect_first_port s))"
  by (simp add: init_module_after_setup register_devices_ports detect_second_port_first)

lemma detect_first_port_recognized:
  "first_port (detect_first_port s) \<noteq> UNDEFINED \<longleftrightarrow>
   first_port s \<noteq> 0 \<and> writes_accepted (wr s) \<and> recognized True (rd s)"
  by (simp add: detect_first_port_def io_defs writes_accepted_def recognized_def
      split: list.splits option.splits bool.splits)

lemma detect_second_port_recognized:
  "second_port (detect_second_port s) \<noteq> UNDEFINED \<longleftrightarrow>
   second_port s \<noteq> 0 \<and> writes_accepted (wr s) \<and> recognized False (rd s)"
  by (simp add: detect_second_port_def io_defs writes_accepted_def recognized_def
      split: list.splits option.splits bool.splits)

lemma register_nothing:
  "first_port s = 0 \<Longrightarrow> second_port s = 0 \<Longrightarrow> register_devices k s = (0, s)"
  by (simp add: register_devices_def register_first_def register_second_def)

lemma controller_probe_ports:
  "controller_probe s0 = Inr (dual, s) \<Longrightarrow>
   first_port s = first_port s0 \<and> second_port s = second_port s0"
  by (auto simp: controller_probe_def disable_ports_def flush_output_buffer_def
      set_config_byte_def self_check_def detect_dual_channel_def io_defs Let_def
      split: list.splits option.splits if_splits)

lemma init_module_interface_failure:
  "controller_probe s0 = Inr (dual, s) \<Longrightarrow> interface_check dual s = Inl r \<Longrightarrow>
   init_module k s0 = r"
  by (simp add: init_module_def controller_setup_def)

lemma set_config_byte_result:
  "rd s = Some c # Some x # r \<Longrightarrow>
   set_config_byte s =
     Inr (if bit x 5 then 1 else 0,
          s\<lparr>rd := r,
            trace := trace s @ [OutCmd I8042_READ_CONFIG_BYTE,
                                OutData (unset_bit 6 (unset_bit 1 (unset_bit 0 c))),
                                OutCmd I8042_WRITE_CONFIG_BYTE]\<rparr>)"
  by (simp add: set_config_byte_def io_defs)

section \<open>The decoder\<close>

text \<open>
  Claim C1. For every index \<open>i\<close> of the one-byte tables (there are 85), the handler run
  on interrupt line 1 with \<open>press_scancodes ! i\<close> as the byte read reports exactly the
  key \<open>keys ! i\<close> with value 1 (pressed) and then syncs; with \<open>release_scancodes ! i\<close>
  it reports the same key with value 0 (released). The handler has no escape variable:
  it has read one byte only, and what is left in the data register is untouched, so the
  next invocation starts on the next byte with the one-byte tables again.
\<close>

theorem one_byte_scancode_decoded:
  "i < 85 \<Longrightarrow>
   i8042_handler I8042_IRQ1 dev (press_scancodes ! i ## rest)
     = (IRQ_HANDLED, [ReportKey dev (keys ! i) 1, InputSync dev], rest) \<and>
   i8042_handler I8042_IRQ1 dev (release_scancodes ! i ## rest)
     = (IRQ_HANDLED, [ReportKey dev (keys ! i) 0, InputSync dev], rest)"
proof -
  assume i: "i < 85"
  note al = aligned_tables_first[OF distinct_tables length_tables(1) length_tables(2) i]
  have p: "press_scancodes ! i \<noteq> 0xE0"
    using no_escape_marker(1) i length_tables(1) by (metis nth_mem)
  have r: "release_scancodes ! i \<noteq> 0xE0"
    using no_escape_marker(2) i length_tables(2) by (metis nth_mem)
  show ?thesis
    using p r scan_tables_press[OF i al(1)] scan_tables_release[OF i al(2) al(3)]
    by (simp add: i8042_handler_def)
qed

theorem one_byte_scancode_decoded_witness:
  "i8042_handler I8042_IRQ1 1 (0x1E ## sconst 0)
     = (IRQ_HANDLED, [ReportKey 1 ''KEY_A'' 1, InputSync 1], sconst 0) \<and>
   i8042_handler I8042_IRQ1 1 (0x9E ## sconst 0)
     = (IRQ_HANDLED, [ReportKey 1 ''KEY_A'' 0, InputSync 1], sconst 0)"
  using one_byte_scancode_decoded[of 29 1 "sconst 0"]
  by (simp add: press_scancodes_def release_scancodes_def keys_def)

text \<open>
  Claim C2, as stated, has the invocation that receives 0xE0 emit no event and leave an
  escape flag for the next invocation. The handler has no such flag: on 0xE0 it reads the
  data register again at once and reports the escaped key in the same invocation. Here
  the invocation that reads 0xE0 and then 0x1C does emit a key event.
\<close>

theorem escape_byte_invocation_emits_counterexample:
  "key_events (fst (snd (i8042_handler I8042_IRQ1 1 (0xE0 ## 0x1C ## sconst 0)))) \<noteq> []"
proof -
  have "scan_tables 15 esc_press_scancodes esc_release_scancodes esc_keys 1 0x1C 0
      = [ReportKey 1 (esc_keys ! 0) 1]"
    by (rule scan_tables_at_press) (simp_all add: esc_press_scancodes_def)
  then show ?thesis by (simp add: i8042_handler_def)
qed

text \<open>
  Claim C2, amended. When the handler, run on interrupt line 1, reads the escape marker
  0xE0, it emits nothing for that byte and reads the following byte from the data register
  in the same invocation; that byte is matched against the escape tables only: for every
  index \<open>i\<close> of the escape tables (there are 15), \<open>esc_press_scancodes ! i\<close> reports
  \<open>esc_keys ! i\<close> pressed and \<open>esc_release_scancodes ! i\<close> reports it released,
  also when the byte is an entry of the one-byte tables (0x1C is, for the key
  \<^verbatim>\<open>KEY_ENTER\<close>); a byte that is in neither escape table reports nothing, also when
  it is an entry of the one-byte tables (0x1E is).
\<close>

theorem escaped_scancode_decoded:
  "(i < 15 \<longrightarrow>
      i8042_handler I8042_IRQ1 dev (0xE0 ## esc_press_scancodes ! i ## rest)
        = (IRQ_HANDLED, [ReportKey dev (esc_keys ! i) 1, InputSync dev], rest) \<and>
      i8042_handler I8042_IRQ1 dev (0xE0 ## esc_release_scancodes ! i ## rest)
        = (IRQ_HANDLED, [ReportKey dev (esc_keys ! i) 0, InputSync dev], rest)) \<and>
   (b \<notin> set esc_press_scancodes \<and> b \<notin> set esc_release_scancodes \<longrightarrow>
      i8042_handler I8042_IRQ1 dev (0xE0 ## b ## rest) = (IRQ_HANDLED, [InputSync dev], rest))"
proof (intro conjI impI)
  assume i: "i < 15"
  note al = aligned_tables_first[OF distinct_esc_tables length_tables(4) length_tables(5) i]
  show "i8042_handler I8042_IRQ1 dev (0xE0 ## esc_press_scancodes ! i ## rest)
        = (IRQ_HANDLED, [ReportKey dev (esc_keys ! i) 1, InputSync dev], rest)"
    using scan_tables_press[OF i al(1)] by (simp add: i8042_handler_def)
  show "i8042_handler I8042_IRQ1 dev (0xE0 ## esc_release_scancodes ! i ## rest)
        = (IRQ_HANDLED, [ReportKey dev (esc_keys ! i) 0, InputSync dev], rest)"
    using scan_tables_release[OF i al(2) al(3)] by (simp add: i8042_handler_def)
next
  assume "b \<notin> set esc_press_scancodes \<and> b \<notin> set esc_release_scancodes"
  then have "scan_tables 15 esc_press_scancodes esc_release_scancodes esc_keys dev b 0 = []"
    by (intro not_in_tables_miss) (simp_all add: length_tables)
  then show "i8042_handler I8042_IRQ1 dev (0xE0 ## b ## rest)
      = (IRQ_HANDLED, [InputSync dev], rest)"
    by (simp add: i8042_handler_def)
qed

theorem escaped_scancode_decoded_witness:
  "i8042_handler I8042_IRQ1 1 (0xE0 ## 0x1C ## sconst 0)
     = (IRQ_HANDLED, [ReportKey 1 ''KEY_KPENTER'' 1, InputSync 1], sconst 0) \<and>
   i8042_handler I8042_IRQ1 1 (0xE0 ## 0x9C ## sconst 0)
     = (IRQ_HANDLED, [ReportKey 1 ''KEY_KPENTER'' 0, InputSync 1], sconst 0) \<and>
   press_scancodes ! 27 = 0x1C \<and> keys ! 27 = ''KEY_ENTER'' \<and>
   i8042_handler I8042_IRQ1 1 (0xE0 ## 0x1E ## sconst 0)
     = (IRQ_HANDLED, [InputSync 1], sconst 0) \<and>
   press_scancodes ! 29 = 0x1E"
  using escaped_scancode_decoded[of 0 1 "sconst 0" "0x1E"]
  by (simp add: esc_press_scancodes_def esc_release_scancodes_def esc_keys_def
      press_scancodes_def keys_def)

text \<open>
  Claim C9. Every invocation of the handler returns \<^verbatim>\<open>IRQ_HANDLED\<close> (there is no error
  path), and its calls on the device are at most one key report followed by exactly one
  \<^verbatim>\<open>input_sync\<close>, on the device the handler was given. A byte that is neither 0xE0 nor
  in the one-byte tables, and a byte after 0xE0 that is not in the escape tables, give no
  key report: the sync is the only call.
\<close>

theorem unmatched_byte_dropped_sync_always:
  "fst (i8042_handler irq dev data) = IRQ_HANDLED \<and>
   fst (snd (i8042_handler irq dev data))
     = map (\<lambda>(k, v). ReportKey dev k v) (key_events (fst (snd (i8042_handler irq dev data))))
       @ [InputSync dev] \<and>
   length (key_events (fst (snd (i8042_handler irq dev data)))) \<le> 1 \<and>
   (shd data \<noteq> 0xE0 \<and> shd data \<notin> set press_scancodes \<and> shd data \<notin> set release_scancodes \<longrightarrow>
      i8042_handler I8042_IRQ1 dev data = (IRQ_HANDLED, [InputSync dev], stl data)) \<and>
   (shd data = 0xE0 \<and> shd (stl data) \<notin> set esc_press_scancodes \<and>
    shd (stl data) \<notin> set esc_release_scancodes \<longrightarrow>
      i8042_handler I8042_IRQ1 dev data = (IRQ_HANDLED, [InputSync dev], stl (stl data)))"
proof (intro conjI impI)
  show "fst (i8042_handler irq dev data) = IRQ_HANDLED"
    by (simp add: i8042_handler_def Let_def)
  show "fst (snd (i8042_handler irq dev data))
     = map (\<lambda>(k, v). ReportKey dev k v) (key_events (fst (snd (i8042_handler irq dev data))))
       @ [InputSync dev]"
    by (simp add: i8042_handler_def Let_def key_events_append_sync scan_tables_key_events)
  show "length (key_events (fst (snd (i8042_handler irq dev data)))) \<le> 1"
    by (simp add: i8042_handler_def Let_def key_events_append_sync scan_tables_one_event)
next
  assume a: "shd data \<noteq> 0xE0 \<and> shd data \<notin> set press_scancodes \<and> shd data \<notin> set release_scancodes"
  then have "scan_tables 85 press_scancodes release_scancodes keys dev (shd data) 0 = []"
    by (intro not_in_tables_miss) (simp_all add: length_tables)
  with a show "i8042_handler I8042_IRQ1 dev data = (IRQ_HANDLED, [InputSync dev], stl data)"
    by (simp add: i8042_handler_def)
next
  assume a: "shd data = 0xE0 \<and> shd (stl data) \<notin> set esc_press_scancodes \<and>
    shd (stl data) \<notin> set esc_release_scancodes"
  then have "scan_tables 15 esc_press_scancodes esc_release_scancodes esc_keys dev
      (shd (stl data)) 0 = []"
    by (intro not_in_tables_miss) (simp_all add: length_tables)
  with a show "i8042_handler I8042_IRQ1 dev data = (IRQ_HANDLED, [InputSync dev], stl (stl data))"
    by (simp add: i8042_handler_def)
qed

theorem unmatched_byte_dropped_sync_always_witness:
  "i8042_handler I8042_IRQ1 1 (0x54 ## sconst 0) = (IRQ_HANDLED, [InputSync 1], sconst 0) \<and>
   i8042_handler I8042_IRQ1 1 (0xE0 ## 0x1E ## sconst 0) = (IRQ_HANDLED, [InputSync 1], sconst 0)"
  using unmatched_byte_dropped_sync_always[of I8042_IRQ1 1 "0x54 ## sconst 0"]
    unmatched_byte_dropped_sync_always[of I8042_IRQ1 1 "0xE0 ## 0x1E ## sconst 0"]
  by (simp add: press_scancodes_def release_scancodes_def esc_press_scancodes_def
      esc_release_scancodes_def)

text \<open>
  Claim C10. On interrupt line 12 the handler reads the byte and only syncs, whatever the
  byte and whatever the class of the second port (the handler does not look at it); no
  line other than line 1 ever gives a key event. Line 12 is the line bring-up binds to the
  handler for the second device, also when the second port was classified as a keyboard.
\<close>

theorem second_line_never_decodes:
  "i8042_handler I8042_IRQ12 dev data = (IRQ_HANDLED, [InputSync dev], stl data) \<and>
   (irq \<noteq> I8042_IRQ1 \<longrightarrow> key_events (fst (snd (i8042_handler irq dev data))) = []) \<and>
   (second_port s = KEYBOARD \<and> allocate_ok k 2 \<and> register_ret k 2 = 0 \<and>
    request_irq_ret k I8042_IRQ12 = 0 \<longrightarrow>
      RequestIrq I8042_IRQ12 2 \<in> set (trace (snd (register_second k s))))"
  using register_second_binds[of s k] by (simp add: i8042_handler_def)

theorem second_line_never_decodes_witness:
  "i8042_handler I8042_IRQ12 2 (0x1E ## sconst 0) = (IRQ_HANDLED, [InputSync 2], sconst 0) \<and>
   key_events (fst (snd (i8042_handler I8042_IRQ12 2 (0x1E ## sconst 0)))) = [] \<and>
   RequestIrq I8042_IRQ12 2 \<in> set (trace (snd (register_second
     \<lparr>allocate_ok = \<lambda>n. True, register_ret = \<lambda>n. 0, request_irq_ret = \<lambda>l. 0\<rparr>
     \<lparr>first_port = UNDEFINED, second_port = KEYBOARD, rd = [Some 0xFA], wr = [True], trace = []\<rparr>)))"
  using second_line_never_decodes[of 2 "0x1E ## sconst 0" I8042_IRQ12
     "\<lparr>first_port = UNDEFINED, second_port = KEYBOARD, rd = [Some 0xFA], wr = [True], trace = []\<rparr>"
     "\<lparr>allocate_ok = \<lambda>n. True, register_ret = \<lambda>n. 0, request_irq_ret = \<lambda>l. 0\<rparr>"]
  by simp

section \<open>Bring-up\<close>

text \<open>
  Claim C3. In the identification of a port, when both commands are accepted, the first
  answer arrives and the answer to "identify" is 0xFA, 0xAB and a third byte: on the first
  port the third byte 0x41, 0xC1 or 0x83 makes the port a keyboard; on the second port
  0x41 or 0xC1 makes it a keyboard and 0x83 leaves it undefined.
\<close>

theorem identify_keyboard:
  "wr s = True # True # w \<and> rd s = Some a # Some 0xFA # Some 0xAB # Some b2 # r \<longrightarrow>
     (first_port s \<noteq> 0 \<and> (b2 = 0x41 \<or> b2 = 0xC1 \<or> b2 = 0x83) \<longrightarrow>
        detect_first_port s
          = s\<lparr>first_port := KEYBOARD, rd := r, wr := w,
               trace := trace s @ [OutData I8042_DISABLE_SCANNING, OutData I8042_IDENTIFY]\<rparr>) \<and>
     (second_port s \<noteq> 0 \<and> (b2 = 0x41 \<or> b2 = 0xC1) \<longrightarrow>
        detect_second_port s
          = s\<lparr>second_port := KEYBOARD, rd := r, wr := w,
               trace := trace s @
                 [OutCmd I8042_WRITE_SECOND_PS2_INPUT_BUFFER, OutData I8042_DISABLE_SCANNING,
                  OutCmd I8042_WRITE_SECOND_PS2_INPUT_BUFFER, OutData I8042_IDENTIFY]\<rparr>) \<and>
     (second_port s \<noteq> 0 \<and> b2 = 0x83 \<longrightarrow>
        detect_second_port s
          = s\<lparr>second_port := UNDEFINED, rd := r, wr := w,
               trace := trace s @
                 [OutCmd I8042_WRITE_SECOND_PS2_INPUT_BUFFER, OutData I8042_DISABLE_SCANNING,
                  OutCmd I8042_WRITE_SECOND_PS2_INPUT_BUFFER, OutData I8042_IDENTIFY]\<rparr>)"
  by (auto simp: detect_first_port_def detect_second_port_def io_defs)

theorem identify_keyboard_witness:
  "detect_first_port
     \<lparr>first_port = 1, second_port = 1, rd = [Some 0xFA, Some 0xFA, Some 0xAB, Some 0x83],
      wr = [True, True], trace = []\<rparr>
   = \<lparr>first_port = KEYBOARD, second_port = 1, rd = [], wr = [],
      trace = [OutData I8042_DISABLE_SCANNING, OutData I8042_IDENTIFY]\<rparr> \<and>
   detect_second_port
     \<lparr>first_port = 1, second_port = 1, rd = [Some 0xFA, Some 0xFA, Some 0xAB, Some 0x83],
      wr = [True, True], trace = []\<rparr>
   = \<lparr>first_port = 1, second_port = UNDEFINED, rd = [], wr = [],
      trace = [OutCmd I8042_WRITE_SECOND_PS2_INPUT_BUFFER, OutData I8042_DISABLE_SCANNING,
               OutCmd I8042_WRITE_SECOND_PS2_INPUT_BUFFER, OutData I8042_IDENTIFY]\<rparr> \<and>
   detect_second_port
     \<lparr>first_port = 1, second_port = 1, rd = [Some 0xFA, Some 0xFA, Some 0xAB, Some 0xC1],
      wr = [True, True], trace = []\<rparr>
   = \<lparr>first_port = 1, second_port = KEYBOARD, rd = [], wr = [],
      trace = [OutCmd I8042_WRITE_SECOND_PS2_INPUT_BUFFER, OutData I8042_DISABLE_SCANNING,
               OutCmd I8042_WRITE_SECOND_PS2_INPUT_BUFFER, OutData I8042_IDENTIFY]\<rparr>"
  using identify_keyboard[of
      "\<lparr>first_port = 1, second_port = 1, rd = [Some 0xFA, Some 0xFA, Some 0xAB, Some 0x83],
        wr = [True, True], trace = []\<rparr>" "[]" "0xFA" "0x83" "[]"]
    identify_keyboard[of
      "\<lparr>first_port = 1, second_port = 1, rd = [Some 0xFA, Some 0xFA, Some 0xAB, Some 0xC1],
        wr = [True, True], trace = []\<rparr>" "[]" "0xFA" "0xC1" "[]"]
  by simp

text \<open>
  Claim C7. A port comes out of its identification with a class other than undefined
  exactly when the port was usable, both commands were accepted and the answers are in the
  recognised set; so any timeout of a read or a write and any other answer leaves it
  undefined. The identification of one port does not touch the flag of the other port, the
  identification of the second port runs after that of the first whatever the first one
  found, and \<^verbatim>\<open>init_module\<close> goes on to the registration part, where two undefined
  ports give the return value 0.
\<close>

theorem identification_failure_is_local:
  "(first_port (detect_first_port s) \<noteq> UNDEFINED \<longleftrightarrow>
      first_port s \<noteq> 0 \<and> writes_accepted (wr s) \<and> recognized True (rd s)) \<and>
   (second_port (detect_second_port s) \<noteq> UNDEFINED \<longleftrightarrow>
      second_port s \<noteq> 0 \<and> writes_accepted (wr s) \<and> recognized False (rd s)) \<and>
   second_port (detect_first_port s) = second_port s \<and>
   first_port (detect_second_port s) = first_port s \<and>
   (controller_setup s0 = Inr s \<longrightarrow>
      init_module k s0 = register_devices k (detect_second_port (detect_first_port s)) \<and>
      first_port (snd (init_module k s0)) = first_port (detect_first_port s) \<and>
      second_port (snd (init_module k s0))
        = second_port (detect_second_port (detect_first_port s))) \<and>
   (first_port s = 0 \<and> second_port s = 0 \<longrightarrow> register_devices k s = (0, s))"
  using detect_first_port_recognized[of s] detect_second_port_recognized[of s]
    init_module_ports[of s0 s k] init_module_after_setup[of s0 s k] register_nothing[of s k]
  by (simp add: detect_first_port_second detect_second_port_first)

theorem identification_failure_is_local_witness:
  "first_port (snd (init_module
      \<lparr>allocate_ok = \<lambda>n. True, register_ret = \<lambda>n. 0, request_irq_ret = \<lambda>l. 0\<rparr>
      (module_load
        [Some 0x00, Some 0x00, Some 0x20, Some 0x55, Some 0x00, Some 0x00, Some 0x00, Some 0x00,
         Some 0xFA, Some 0xFA, Some 0xFA, None, Some 0xFA, Some 0xFA, Some 0xAB, Some 0x41,
         Some 0xFA]
        [True, True, True, True, True, True, True]))) = UNDEFINED \<and>
   second_port (snd (init_module
      \<lparr>allocate_ok = \<lambda>n. True, register_ret = \<lambda>n. 0, request_irq_ret = \<lambda>l. 0\<rparr>
      (module_load
        [Some 0x00, Some 0x00, Some 0x20, Some 0x55, Some 0x00, Some 0x00, Some 0x00, Some 0x00,
         Some 0xFA, Some 0xFA, Some 0xFA, None, Some 0xFA, Some 0xFA, Some 0xAB, Some 0x41,
         Some 0xFA]
        [True, True, True, True, True, True, True]))) \<noteq> UNDEFINED"
proof -
  let ?k = "\<lparr>allocate_ok = \<lambda>n. True, register_ret = \<lambda>n. 0, request_irq_ret = \<lambda>l. 0\<rparr>"
  let ?s0 = "module_load
        [Some 0x00, Some 0x00, Some 0x20, Some 0x55, Some 0x00, Some 0x00, Some 0x00, Some 0x00,
         Some 0xFA, Some 0xFA, Some 0xFA, None, Some 0xFA, Some 0xFA, Some 0xAB, Some 0x41,
         Some 0xFA]
        [True, True, True, True, True, True, True]"
  let ?tr = "[OutCmd I8042_DISABLE_FIRST_PS2_PORT, OutCmd I8042_DISABLE_SECOND_PS2_PORT,
           OutCmd I8042_READ_CONFIG_BYTE, OutCmd I8042_READ_CONFIG_BYTE, OutData 0x00,
           OutCmd I8042_WRITE_CONFIG_BYTE, OutCmd I8042_SELF_TEST,
           OutCmd I8042_ENABLE_SECOND_PS2_PORT, OutCmd I8042_READ_CONFIG_BYTE,
           OutCmd I8042_DISABLE_SECOND_PS2_PORT, OutCmd I8042_FIRST_PORT_INTERFACE_TEST,
           OutCmd I8042_SECOND_PORT_INTERFACE_TEST, OutCmd I8042_READ_CONFIG_BYTE,
           OutCmd I8042_ENABLE_FIRST_PS2_PORT, OutCmd I8042_ENABLE_SECOND_PS2_PORT,
           OutData 0x43, OutCmd I8042_WRITE_CONFIG_BYTE, OutData I8042_RESET,
           OutCmd I8042_WRITE_SECOND_PS2_INPUT_BUFFER, OutData I8042_RESET]"
  let ?s1 = "\<lparr>first_port = 1, second_port = 1,
        rd = [Some 0xFA, None, Some 0xFA, Some 0xFA, Some 0xAB, Some 0x41, Some 0xFA],
        wr = [True, True, True, True, True], trace = ?tr\<rparr>"
  let ?s2 = "\<lparr>first_port = 0, second_port = 1,
        rd = [Some 0xFA, Some 0xFA, Some 0xAB, Some 0x41, Some 0xFA],
        wr = [True, True, True],
        trace = ?tr @ [OutData I8042_DISABLE_SCANNING, OutData I8042_IDENTIFY]\<rparr>"
  have a: "controller_setup ?s0 = Inr ?s1" by code_simp
  have b: "detect_first_port ?s1 = ?s2" by code_simp
  note t1 = identification_failure_is_local[of ?s1 ?s0 ?k]
  note t2 = identification_failure_is_local[of ?s2 ?s0 ?k]
  have p: "first_port (snd (init_module ?k ?s0)) = first_port (detect_first_port ?s1)"
    "second_port (snd (init_module ?k ?s0))
       = second_port (detect_second_port (detect_first_port ?s1))"
    using t1 a by blast+
  have "\<not> recognized True (rd ?s1)" by (simp add: recognized_def)
  then have f: "first_port (detect_first_port ?s1) = UNDEFINED" using t1 by blast
  have "second_port ?s2 \<noteq> 0 \<and> writes_accepted (wr ?s2) \<and> recognized False (rd ?s2)"
    by (simp add: writes_accepted_def recognized_def)
  then have g: "second_port (detect_second_port ?s2) \<noteq> UNDEFINED" using t2 by blast
  show ?thesis using p f g b by simp
qed

text \<open>
  Claim C8. After a controller probe that started with both globals zero: without dual
  channel only the first port is tested, the answer 0x00 marks it usable and any other
  answer makes \<^verbatim>\<open>init_module\<close> return \<open>-EINVAL\<close>; with dual channel both ports are
  tested, each is marked usable exactly when its answer is 0x00, a port with another
  answer stays at zero while bring-up goes on with the other, and \<open>-EINVAL\<close> is returned
  exactly when both answers differ from 0x00. Whatever the interface check returns is what
  \<^verbatim>\<open>init_module\<close> returns.
\<close>

theorem interface_check_outcomes:
  assumes "controller_probe s0 = Inr (dual, s)" and "first_port s0 = 0" and "second_port s0 = 0"
  shows
    "(dual = 0 \<and> rd s = Some b1 # r \<longrightarrow>
        interface_check dual s =
          (if b1 = 0x00
           then Inr (s\<lparr>first_port := 1, rd := r,
                       trace := trace s @ [OutCmd I8042_FIRST_PORT_INTERFACE_TEST]\<rparr>)
           else Inl (- EINVAL,
                     s\<lparr>rd := r, trace := trace s @ [OutCmd I8042_FIRST_PORT_INTERFACE_TEST]\<rparr>))) \<and>
     (dual \<noteq> 0 \<and> rd s = Some b1 # Some b2 # r \<longrightarrow>
        interface_check dual s =
          (let t = s\<lparr>first_port := (if b1 = 0x00 then 1 else 0),
                     second_port := (if b2 = 0x00 then 1 else 0), rd := r,
                     trace := trace s @ [OutCmd I8042_FIRST_PORT_INTERFACE_TEST,
                                         OutCmd I8042_SECOND_PORT_INTERFACE_TEST]\<rparr>
           in if b1 \<noteq> 0x00 \<and> b2 \<noteq> 0x00 then Inl (- EINVAL, t) else Inr t)) \<and>
     (interface_check dual s = Inl e \<longrightarrow> init_module k s0 = e)"
proof -
  have p: "first_port s = 0" "second_port s = 0"
    using controller_probe_ports[OF assms(1)] assms(2,3) by simp_all
  have a: "dual = 0 \<and> rd s = Some b1 # r \<longrightarrow>
        interface_check dual s =
          (if b1 = 0x00
           then Inr (s\<lparr>first_port := 1, rd := r,
                       trace := trace s @ [OutCmd I8042_FIRST_PORT_INTERFACE_TEST]\<rparr>)
           else Inl (- EINVAL,
                     s\<lparr>rd := r, trace := trace s @ [OutCmd I8042_FIRST_PORT_INTERFACE_TEST]\<rparr>))"
    using p by (simp add: interface_check_def io_defs)
  have b: "dual \<noteq> 0 \<and> rd s = Some b1 # Some b2 # r \<longrightarrow>
        interface_check dual s =
          (let t = s\<lparr>first_port := (if b1 = 0x00 then 1 else 0),
                     second_port := (if b2 = 0x00 then 1 else 0), rd := r,
                     trace := trace s @ [OutCmd I8042_FIRST_PORT_INTERFACE_TEST,
                                         OutCmd I8042_SECOND_PORT_INTERFACE_TEST]\<rparr>
           in if b1 \<noteq> 0x00 \<and> b2 \<noteq> 0x00 then Inl (- EINVAL, t) else Inr t)"
    using p by (auto simp: interface_check_def io_defs Let_def intro!: driver.equality)
  have c: "interface_check dual s = Inl e \<longrightarrow> init_module k s0 = e"
    using init_module_interface_failure[OF assms(1)] by simp
  show ?thesis using a b c by blast
qed

theorem interface_check_outcomes_witness:
  "init_module
     \<lparr>allocate_ok = \<lambda>n. True, register_ret = \<lambda>n. 0, request_irq_ret = \<lambda>l. 0\<rparr>
     (module_load [Some 0x00, Some 0x00, Some 0x00, Some 0x55, Some 0x01] [])
   = (- EINVAL,
      \<lparr>first_port = 0, second_port = 0, rd = [], wr = [],
        trace =
          [OutCmd I8042_DISABLE_FIRST_PS2_PORT, OutCmd I8042_DISABLE_SECOND_PS2_PORT,
           OutCmd I8042_READ_CONFIG_BYTE, OutCmd I8042_READ_CONFIG_BYTE, OutData 0x00,
           OutCmd I8042_WRITE_CONFIG_BYTE, OutCmd I8042_SELF_TEST,
           OutCmd I8042_FIRST_PORT_INTERFACE_TEST]\<rparr>) \<and>
   interface_check 1
     \<lparr>first_port = 0, second_port = 0, rd = [Some 0x01, Some 0x00], wr = [],
      trace =
        [OutCmd I8042_DISABLE_FIRST_PS2_PORT, OutCmd I8042_DISABLE_SECOND_PS2_PORT,
         OutCmd I8042_READ_CONFIG_BYTE, OutCmd I8042_READ_CONFIG_BYTE, OutData 0x00,
         OutCmd I8042_WRITE_CONFIG_BYTE, OutCmd I8042_SELF_TEST,
         OutCmd I8042_ENABLE_SECOND_PS2_PORT, OutCmd I8042_READ_CONFIG_BYTE,
         OutCmd I8042_DISABLE_SECOND_PS2_PORT]\<rparr>
   = Inr \<lparr>first_port = 0, second_port = 1, rd = [], wr = [],
      trace =
        [OutCmd I8042_DISABLE_FIRST_PS2_PORT, OutCmd I8042_DISABLE_SECOND_PS2_PORT,
         OutCmd I8042_READ_CONFIG_BYTE, OutCmd I8042_READ_CONFIG_BYTE, OutData 0x00,
         OutCmd I8042_WRITE_CONFIG_BYTE, OutCmd I8042_SELF_TEST,
         OutCmd I8042_ENABLE_SECOND_PS2_PORT, OutCmd I8042_READ_CONFIG_BYTE,
         OutCmd I8042_DISABLE_SECOND_PS2_PORT,
         OutCmd I8042_FIRST_PORT_INTERFACE_TEST, OutCmd I8042_SECOND_PORT_INTERFACE_TEST]\<rparr>"
proof -
  let ?k = "\<lparr>allocate_ok = \<lambda>n. True, register_ret = \<lambda>n. (0::int), request_irq_ret = \<lambda>l. (0::int)\<rparr>"
  let ?s0 = "module_load [Some 0x00, Some 0x00, Some 0x00, Some 0x55, Some 0x01] []"
  let ?s1 = "\<lparr>first_port = 0, second_port = 0, rd = [Some 0x01], wr = [],
      trace =
        [OutCmd I8042_DISABLE_FIRST_PS2_PORT, OutCmd I8042_DISABLE_SECOND_PS2_PORT,
         OutCmd I8042_READ_CONFIG_BYTE, OutCmd I8042_READ_CONFIG_BYTE, OutData 0x00,
         OutCmd I8042_WRITE_CONFIG_BYTE, OutCmd I8042_SELF_TEST]\<rparr>"
  let ?t0 = "module_load
      [Some 0x00, Some 0x00, Some 0x20, Some 0x55, Some 0x00, Some 0x01, Some 0x00] []"
  let ?t1 = "\<lparr>first_port = 0, second_port = 0, rd = [Some 0x01, Some 0x00], wr = [],
      trace =
        [OutCmd I8042_DISABLE_FIRST_PS2_PORT, OutCmd I8042_DISABLE_SECOND_PS2_PORT,
         OutCmd I8042_READ_CONFIG_BYTE, OutCmd I8042_READ_CONFIG_BYTE, OutData 0x00,
         OutCmd I8042_WRITE_CONFIG_BYTE, OutCmd I8042_SELF_TEST,
         OutCmd I8042_ENABLE_SECOND_PS2_PORT, OutCmd I8042_READ_CONFIG_BYTE,
         OutCmd I8042_DISABLE_SECOND_PS2_PORT]\<rparr>"
  have a: "controller_probe ?s0 = Inr (0, ?s1)" by code_simp
  have b: "controller_probe ?t0 = Inr (1, ?t1)" by code_simp
  have z: "first_port ?s0 = 0" "second_port ?s0 = 0" "first_port ?t0 = 0" "second_port ?t0 = 0"
    by (simp_all add: module_load_def)
  show ?thesis
    using interface_check_outcomes[OF a z(1) z(2), where k = ?k and ?b1.0 = "0x01" and r = "[]"]
      interface_check_outcomes[OF b z(3) z(4), where k = ?k and ?b1.0 = "0x01"
        and ?b2.0 = "0x00" and r = "[]"]
    by simp
qed

text \<open>
  Claim C5 says that \<^verbatim>\<open>dual_channel_test\<close> is bit 5 of the config byte read at the start
  of the step. The code tests bit 5 of \<^verbatim>\<open>byte\<close> after the second \<^verbatim>\<open>read_reg\<close> of the
  step (line 228) has overwritten it. With the config byte 0x20 (bit 5 set) and the later
  byte 0x00 the flag is 0; with the config byte 0x47 (bit 5 clear) and the later byte 0x20
  the flag is 1. In the first case the whole probe of the controller, on the answers
  0x00 (flushed), 0x20, 0x00 and 0x55 (self test passed), ends with the flag 0 and without
  the command 0xA8 of the dual-channel test. The byte written to the data register is the
  config byte with bits 0, 1 and 6 cleared, and the command 0x60 follows.
\<close>

theorem dual_channel_flag_from_later_read:
  "bit (0x20 :: byte) 5 \<and>
   set_config_byte (module_load [Some 0x20, Some 0x00] [])
     = Inr (0, \<lparr>first_port = 0, second_port = 0, rd = [], wr = [],
                trace = [OutCmd I8042_READ_CONFIG_BYTE, OutData 0x20,
                         OutCmd I8042_WRITE_CONFIG_BYTE]\<rparr>) \<and>
   controller_probe (module_load [Some 0x00, Some 0x20, Some 0x00, Some 0x55] [])
     = Inr (0, \<lparr>first_port = 0, second_port = 0, rd = [], wr = [],
                trace = [OutCmd I8042_DISABLE_FIRST_PS2_PORT, OutCmd I8042_DISABLE_SECOND_PS2_PORT,
                         OutCmd I8042_READ_CONFIG_BYTE,
                         OutCmd I8042_READ_CONFIG_BYTE, OutData 0x20,
                         OutCmd I8042_WRITE_CONFIG_BYTE,
                         OutCmd I8042_SELF_TEST]\<rparr>) \<and>
   \<not> bit (0x47 :: byte) 5 \<and>
   set_config_byte (module_load [Some 0x47, Some 0x20] [])
     = Inr (1, \<lparr>first_port = 0, second_port = 0, rd = [], wr = [],
                trace = [OutCmd I8042_READ_CONFIG_BYTE, OutData 0x04,
                         OutCmd I8042_WRITE_CONFIG_BYTE]\<rparr>)"
  by code_simp

text \<open>
  Claim C6 says that a port that is not usable is not sent a reset and cannot cause a
  fatal timeout in the reset step. The code resets both devices without a test of
  \<^verbatim>\<open>first_port\<close> or \<^verbatim>\<open>second_port\<close>. Here the controller has no second channel
  (\<^verbatim>\<open>second_port\<close> stays 0), the first port passes its test and its device answers
  the reset; the reset is then written to the second port as well and, with no answer from
  there, \<^verbatim>\<open>init_module\<close> returns \<open>-ETIME\<close>.
\<close>

theorem unusable_second_port_is_reset:
  "init_module
     \<lparr>allocate_ok = \<lambda>n. True, register_ret = \<lambda>n. 0, request_irq_ret = \<lambda>l. 0\<rparr>
     (module_load
        [Some 0x00, Some 0x00, Some 0x00, Some 0x55, Some 0x00, Some 0x00, Some 0xFA]
        [True, True])
   = (- ETIME,
      \<lparr>first_port = 1, second_port = 0, rd = [], wr = [],
        trace =
          [OutCmd I8042_DISABLE_FIRST_PS2_PORT, OutCmd I8042_DISABLE_SECOND_PS2_PORT,
           OutCmd I8042_READ_CONFIG_BYTE,
           OutCmd I8042_READ_CONFIG_BYTE, OutData 0x00, OutCmd I8042_WRITE_CONFIG_BYTE,
           OutCmd I8042_SELF_TEST,
           OutCmd I8042_FIRST_PORT_INTERFACE_TEST,
           OutCmd I8042_READ_CONFIG_BYTE, OutCmd I8042_ENABLE_FIRST_PS2_PORT, OutData 0x41,
           OutCmd I8042_WRITE_CONFIG_BYTE,
           OutData I8042_RESET,
           OutCmd I8042_WRITE_SECOND_PS2_INPUT_BUFFER, OutData I8042_RESET]\<rparr>)"
  by code_simp

text \<open>
  Claim C4. When the first port is through identification, registration, interrupt binding
  and "enable scanning", the second device is allocated and its registration fails with
  the code \<open>e\<close>: \<^verbatim>\<open>init_module\<close> returns \<open>e\<close>, having freed the second device,
  released interrupt line 1 and unregistered the first device, in this order. At the
  failure the resources held are, newest first, the second device, the binding of line 1,
  the registration and the allocation of the first device; the three releases give them
  back newest first and leave nothing held.
\<close>

theorem second_registration_failure_unwinds:
  assumes "controller_setup s0 = Inr s1"
    and "detect_second_port (detect_first_port s1) = s"
    and "first_port s \<noteq> 0" and "second_port s \<noteq> 0"
    and "allocate_ok k 1" and "register_ret k 1 = 0" and "request_irq_ret k I8042_IRQ1 = 0"
    and "wr s = True # w" and "rd s = Some a # r"
    and "allocate_ok k 2" and "register_ret k 2 \<noteq> 0"
  shows
    "init_module k s0 =
       (register_ret k 2,
        s\<lparr>rd := r, wr := w,
          trace := trace s @
            [InputAllocate 1, InputRegister 1, RequestIrq I8042_IRQ1 1, OutData I8042_KBD_ENABLE,
             InputAllocate 2,
             InputFree 2, FreeIrq I8042_IRQ1 1, InputUnregister 1]\<rparr>) \<and>
     held_after
       [InputAllocate 1, InputRegister 1, RequestIrq I8042_IRQ1 1, OutData I8042_KBD_ENABLE,
        InputAllocate 2] []
       = Some [Allocated 2, Bound I8042_IRQ1 1, Registered 1, Allocated 1] \<and>
     held_after [InputFree 2, FreeIrq I8042_IRQ1 1, InputUnregister 1]
       [Allocated 2, Bound I8042_IRQ1 1, Registered 1, Allocated 1] = Some []"
proof -
  have first: "register_first k s =
      Inr (s\<lparr>rd := r, wr := w,
             trace := trace s @ [InputAllocate 1, InputRegister 1, RequestIrq I8042_IRQ1 1,
                                 OutData I8042_KBD_ENABLE]\<rparr>)"
    using assms(3,5-9) by (simp add: register_first_def io_defs)
  have second: "register_second k
        (s\<lparr>rd := r, wr := w,
           trace := trace s @ [InputAllocate 1, InputRegister 1, RequestIrq I8042_IRQ1 1,
                               OutData I8042_KBD_ENABLE]\<rparr>) =
       (register_ret k 2,
        s\<lparr>rd := r, wr := w,
          trace := trace s @
            [InputAllocate 1, InputRegister 1, RequestIrq I8042_IRQ1 1, OutData I8042_KBD_ENABLE,
             InputAllocate 2,
             InputFree 2, FreeIrq I8042_IRQ1 1, InputUnregister 1]\<rparr>)"
    using assms(3,4,10,11) by (simp add: register_second_def err_first_dev2_free_def did_def)
  have "init_module k s0 = register_devices k s"
    using assms(1,2) by (simp add: init_module_def)
  then show ?thesis using first second by (simp add: register_devices_def)
qed

theorem second_registration_failure_unwinds_witness:
  "init_module
     \<lparr>allocate_ok = \<lambda>n. True, register_ret = \<lambda>n. if n = 2 then - 17 else 0,
      request_irq_ret = \<lambda>l. 0\<rparr>
     (module_load
        [Some 0x00, Some 0x00, Some 0x20, Some 0x55, Some 0x00, Some 0x00, Some 0x00, Some 0x00,
         Some 0xFA, Some 0xFA, Some 0xFA, Some 0xFA, Some 0xAB, Some 0x83,
         Some 0xFA, Some 0xFA, Some 0x00, Some 0xFA]
        [True, True, True, True, True, True, True])
   = (- 17,
      \<lparr>first_port = KEYBOARD, second_port = MOUSE, rd = [], wr = [],
        trace =
          [OutCmd I8042_DISABLE_FIRST_PS2_PORT, OutCmd I8042_DISABLE_SECOND_PS2_PORT,
           OutCmd I8042_READ_CONFIG_BYTE, OutCmd I8042_READ_CONFIG_BYTE, OutData 0x00,
           OutCmd I8042_WRITE_CONFIG_BYTE, OutCmd I8042_SELF_TEST,
           OutCmd I8042_ENABLE_SECOND_PS2_PORT, OutCmd I8042_READ_CONFIG_BYTE,
           OutCmd I8042_DISABLE_SECOND_PS2_PORT, OutCmd I8042_FIRST_PORT_INTERFACE_TEST,
           OutCmd I8042_SECOND_PORT_INTERFACE_TEST, OutCmd I8042_READ_CONFIG_BYTE,
           OutCmd I8042_ENABLE_FIRST_PS2_PORT, OutCmd I8042_ENABLE_SECOND_PS2_PORT,
           OutData 0x43, OutCmd I8042_WRITE_CONFIG_BYTE, OutData I8042_RESET,
           OutCmd I8042_WRITE_SECOND_PS2_INPUT_BUFFER, OutData I8042_RESET,
           OutData I8042_DISABLE_SCANNING, OutData I8042_IDENTIFY,
           OutCmd I8042_WRITE_SECOND_PS2_INPUT_BUFFER, OutData I8042_DISABLE_SCANNING,
           OutCmd I8042_WRITE_SECOND_PS2_INPUT_BUFFER, OutData I8042_IDENTIFY,
           InputAllocate 1, InputRegister 1, RequestIrq I8042_IRQ1 1, OutData I8042_KBD_ENABLE,
           InputAllocate 2,
           InputFree 2, FreeIrq I8042_IRQ1 1, InputUnregister 1]\<rparr>)"
proof -
  let ?k = "\<lparr>allocate_ok = \<lambda>n. True, register_ret = \<lambda>n. if n = 2 then - 17 else (0::int),
      request_irq_ret = \<lambda>l. 0\<rparr>"
  let ?s0 = "module_load
        [Some 0x00, Some 0x00, Some 0x20, Some 0x55, Some 0x00, Some 0x00, Some 0x00, Some 0x00,
         Some 0xFA, Some 0xFA, Some 0xFA, Some 0xFA, Some 0xAB, Some 0x83,
         Some 0xFA, Some 0xFA, Some 0x00, Some 0xFA]
        [True, True, True, True, True, True, True]"
  let ?tr = "[OutCmd I8042_DISABLE_FIRST_PS2_PORT, OutCmd I8042_DISABLE_SECOND_PS2_PORT,
           OutCmd I8042_READ_CONFIG_BYTE, OutCmd I8042_READ_CONFIG_BYTE, OutData 0x00,
           OutCmd I8042_WRITE_CONFIG_BYTE, OutCmd I8042_SELF_TEST,
           OutCmd I8042_ENABLE_SECOND_PS2_PORT, OutCmd I8042_READ_CONFIG_BYTE,
           OutCmd I8042_DISABLE_SECOND_PS2_PORT, OutCmd I8042_FIRST_PORT_INTERFACE_TEST,
           OutCmd I8042_SECOND_PORT_INTERFACE_TEST, OutCmd I8042_READ_CONFIG_BYTE,
           OutCmd I8042_ENABLE_FIRST_PS2_PORT, OutCmd I8042_ENABLE_SECOND_PS2_PORT,
           OutData 0x43, OutCmd I8042_WRITE_CONFIG_BYTE, OutData I8042_RESET,
           OutCmd I8042_WRITE_SECOND_PS2_INPUT_BUFFER, OutData I8042_RESET]"
  let ?s1 = "\<lparr>first_port = 1, second_port = 1,
        rd = [Some 0xFA, Some 0xFA, Some 0xAB, Some 0x83, Some 0xFA, Some 0xFA, Some 0x00,
              Some 0xFA],
        wr = [True, True, True, True, True], trace = ?tr\<rparr>"
  let ?s2 = "\<lparr>first_port = KEYBOARD, second_port = MOUSE, rd = [Some 0xFA], wr = [True],
        trace = ?tr @
          [OutData I8042_DISABLE_SCANNING, OutData I8042_IDENTIFY,
           OutCmd I8042_WRITE_SECOND_PS2_INPUT_BUFFER, OutData I8042_DISABLE_SCANNING,
           OutCmd I8042_WRITE_SECOND_PS2_INPUT_BUFFER, OutData I8042_IDENTIFY]\<rparr>"
  have a: "controller_setup ?s0 = Inr ?s1" by code_simp
  have b: "detect_second_port (detect_first_port ?s1) = ?s2" by code_simp
  show ?thesis
    using second_registration_failure_unwinds[OF a b, where k = ?k and w = "[]" and a = "0xFA"
        and r = "[]"]
    by simp
qed

end
